theory Spec2Isabelle
  imports Complex_Main "HOL-Library.Word"
begin

section \<open>Errors\<close>

text \<open>
  The Python exceptions the code can raise, as values. \<open>ValueError\<close> is raised by the
  constructor of \<open>MixedInfiniteDataset\<close>, \<open>IndexError\<close> by list indexing,
  \<open>StopIteration\<close> by \<open>FiniteDataset.__next__\<close>, \<open>AttributeError\<close> by reading an
  attribute an object does not have, \<open>TypeError\<close> by a call whose arguments do not fit.
\<close>

datatype error = ValueError | IndexError | StopIteration | AttributeError | TypeError

section \<open>Finite datasets (datasets.py, lines 86 to 143)\<close>

text \<open>
  \<open>MyFiniteDataset\<close> has the attributes \<open>data\<close>, \<open>idx\<close> and \<open>size\<close>;
  \<open>MixedFiniteDataset\<close> has \<open>datasets\<close>, \<open>lens\<close>, \<open>size\<close> and \<open>idx\<close>. Python integers are
  unbounded, so the cursor, the sizes and the indices are of type \<open>int\<close>. The leaf is
  kept general in its element list; the class of the source fixes it to \<open>[0, 1, 2, 3]\<close>.
\<close>

datatype 'a FiniteDataset =
    MyFiniteDataset "'a list" int int
  | MixedFiniteDataset "'a FiniteDataset list" "int list" int int

fun idx :: "'a FiniteDataset \<Rightarrow> int" where
  "idx (MyFiniteDataset dat i sz) = i"
| "idx (MixedFiniteDataset ds ls sz i) = i"

fun size_attr :: "'a FiniteDataset \<Rightarrow> int" where
  "size_attr (MyFiniteDataset dat i sz) = sz"
| "size_attr (MixedFiniteDataset ds ls sz i) = sz"

fun set_idx :: "'a FiniteDataset \<Rightarrow> int \<Rightarrow> 'a FiniteDataset" where
  "set_idx (MyFiniteDataset dat i sz) j = MyFiniteDataset dat j sz"
| "set_idx (MixedFiniteDataset ds ls sz i) j = MixedFiniteDataset ds ls sz j"

text \<open>\<open>__len__\<close>: the leaf counts its data, the composite returns its stored size.\<close>

fun len :: "'a FiniteDataset \<Rightarrow> int" where
  "len (MyFiniteDataset dat i sz) = int (length dat)"
| "len (MixedFiniteDataset ds ls sz i) = sz"

text \<open>
  Indexing a Python list: an index in \<open>[0, n)\<close> reads from the front, an index in
  \<open>[-n, 0)\<close> reads from the end, anything else raises \<open>IndexError\<close>.
\<close>

definition list_getitem :: "'a list \<Rightarrow> int \<Rightarrow> error + 'a" where
  "list_getitem xs k =
     (let n = int (length xs) in
      if 0 \<le> k \<and> k < n then Inr (xs ! nat k)
      else if - n \<le> k \<and> k < 0 then Inr (xs ! nat (n + k))
      else Inl IndexError)"

text \<open>
  \<open>__getitem__\<close>. The result is \<open>Inr (Some x)\<close> for an element, \<open>Inr None\<close> for Python's
  \<open>None\<close> (the loop of the composite ends without a \<open>return\<close>), \<open>Inl e\<close> for an exception.
  \<open>getitem_loop\<close> is the loop over \<open>zip(self.datasets, self.lens)\<close>, which stops at the
  shorter list.
\<close>

fun getitem :: "'a FiniteDataset \<Rightarrow> int \<Rightarrow> error + 'a option"
  and getitem_loop :: "'a FiniteDataset list \<Rightarrow> int list \<Rightarrow> int \<Rightarrow> error + 'a option" where
  "getitem (MyFiniteDataset dat i sz) k = map_sum id Some (list_getitem dat k)"
| "getitem (MixedFiniteDataset ds ls sz i) k = getitem_loop ds ls k"
| "getitem_loop [] ls k = Inr None"
| "getitem_loop (d # ds) [] k = Inr None"
| "getitem_loop (d # ds) (n # ns) k =
     (if k < n then getitem d k else getitem_loop ds ns (k - n))"

text \<open>
  The constructors. \<open>FiniteDataset.__init__\<close> sets \<open>idx = 0\<close> and \<open>size = __len__()\<close>; it
  does not call \<open>Dataset.__init__\<close>, so no constructor of a finite dataset calls
  \<open>reset\<close>.
\<close>

definition MyFiniteDataset_of :: "'a list \<Rightarrow> 'a FiniteDataset" where
  "MyFiniteDataset_of dat = MyFiniteDataset dat 0 (int (length dat))"

definition MyFiniteDataset_init :: "int FiniteDataset" where
  "MyFiniteDataset_init = MyFiniteDataset_of [0, 1, 2, 3]"

definition MixedFiniteDataset_init :: "'a FiniteDataset list \<Rightarrow> 'a FiniteDataset" where
  "MixedFiniteDataset_init ds =
     (let ls = map len ds; sz = sum_list ls in MixedFiniteDataset ds ls sz 0)"

text \<open>\<open>FiniteDataset.__next__\<close>: an exception of \<open>__getitem__\<close> leaves the cursor alone.\<close>

definition next_finite :: "'a FiniteDataset \<Rightarrow> error + ('a option \<times> 'a FiniteDataset)" where
  "next_finite d =
     (if idx d \<ge> size_attr d then Inl StopIteration
      else case getitem d (idx d) of
             Inl e \<Rightarrow> Inl e
           | Inr item \<Rightarrow> Inr (item, set_idx d (idx d + 1)))"

text \<open>
  \<open>FiniteDataset.reset\<close> calls the hook \<open>_reset\<close>, which is \<open>pass\<close> in \<open>Dataset\<close> and is
  overridden nowhere, and returns. \<open>MixedFiniteDataset\<close> inherits it.
\<close>

definition reset_finite :: "'a FiniteDataset \<Rightarrow> 'a FiniteDataset" where
  "reset_finite d = d"

text \<open>
  \<open>__add__\<close>. The leaf wraps both operands. The composite reads \<open>other.datasets\<close>, an
  attribute a leaf does not have.
\<close>

fun add :: "'a FiniteDataset \<Rightarrow> 'a FiniteDataset \<Rightarrow> error + 'a FiniteDataset" where
  "add (MyFiniteDataset dat i sz) other =
     Inr (MixedFiniteDataset_init [MyFiniteDataset dat i sz, other])"
| "add (MixedFiniteDataset ds ls sz i) (MixedFiniteDataset ds' ls' sz' i') =
     Inr (MixedFiniteDataset_init (ds @ ds'))"
| "add (MixedFiniteDataset ds ls sz i) (MyFiniteDataset dat i' sz') = Inl AttributeError"

text \<open>
  A consumer that takes up to \<open>n\<close> elements, as a \<open>for\<close> loop with a \<open>break\<close> does:
  \<open>StopIteration\<close> ends the loop, any other exception leaves it.
\<close>

fun take_finite :: "nat \<Rightarrow> 'a FiniteDataset \<Rightarrow> error + ('a option list \<times> 'a FiniteDataset)" where
  "take_finite 0 d = Inr ([], d)"
| "take_finite (Suc n) d =
     (case next_finite d of
        Inl e \<Rightarrow> (if e = StopIteration then Inr ([], d) else Inl e)
      | Inr (x, d') \<Rightarrow>
          (case take_finite n d' of
             Inl e \<Rightarrow> Inl e
           | Inr (xs, d'') \<Rightarrow> Inr (x # xs, d'')))"

text \<open>
  The attributes of a finite dataset as its constructor sets them: \<open>size\<close> is the
  length, \<open>lens\<close> holds the lengths of the children and \<open>size\<close> their sum, in every
  child too. Nothing in the code changes these attributes afterwards.
\<close>

fun consistent :: "'a FiniteDataset \<Rightarrow> bool" where
  "consistent (MyFiniteDataset dat i sz) = (sz = int (length dat))"
| "consistent (MixedFiniteDataset ds ls sz i) =
     (ls = map len ds \<and> sz = sum_list ls \<and> list_all consistent ds)"

section \<open>The numeric library (numpy)\<close>

text \<open>
  The code calls \<open>np.random.default_rng(seed)\<close>, \<open>Generator.uniform(lo, hi)\<close>,
  \<open>Generator.choice(items, p)\<close> and \<open>np.power(x, p)\<close>. numpy is not part of the
  repository, so these four operations are parameters of the model: \<open>'r\<close> is the state
  of a generator, a draw returns its value together with the next state, and
  \<open>rng_choice\<close> returns the position of the selected item (or the exception numpy
  raises). Floating-point numbers are modelled as reals.
\<close>

record 'r numpy =
  np_default_rng :: "int \<Rightarrow> 'r"
  rng_uniform :: "'r \<Rightarrow> real \<Rightarrow> real \<Rightarrow> real \<times> 'r"
  rng_choice :: "'r \<Rightarrow> nat \<Rightarrow> real list option \<Rightarrow> error + (nat \<times> 'r)"
  np_power :: "real \<Rightarrow> real \<Rightarrow> real"

section \<open>Distributions (dist.py)\<close>

text \<open>
  \<open>UniformContinuous\<close> has the attributes \<open>seed\<close>, \<open>rng\<close>, \<open>lo\<close> and \<open>hi\<close>.
  \<open>PowerContinuous\<close> has \<open>seed\<close>, \<open>power\<close> and \<open>uniform\<close>; it overrides \<open>reset_rng\<close>, so
  it never gets an attribute \<open>rng\<close> of its own.
\<close>

record 'r UniformContinuous =
  u_seed :: int
  u_rng :: 'r
  u_lo :: real
  u_hi :: real

record 'r PowerContinuous =
  p_seed :: int
  p_power :: real
  p_uniform :: "'r UniformContinuous"

datatype 'r Continuous =
    Uniform "'r UniformContinuous"
  | Power "'r PowerContinuous"

text \<open>\<open>RNGUser.reset_rng\<close> (rng.py), as \<open>UniformContinuous\<close> inherits it.\<close>

definition Uniform_reset_rng :: "'r numpy \<Rightarrow> 'r UniformContinuous \<Rightarrow> int \<Rightarrow> 'r UniformContinuous" where
  "Uniform_reset_rng np u s = u\<lparr>u_rng := np_default_rng np s\<rparr>"

text \<open>
  \<open>UniformContinuous.__init__\<close>: \<open>Continuous.__init__\<close> stores the seed and seeds the
  generator, then the bounds are stored.
\<close>

definition UniformContinuous_init :: "'r numpy \<Rightarrow> real \<Rightarrow> real \<Rightarrow> int \<Rightarrow> 'r UniformContinuous" where
  "UniformContinuous_init np lo hi s =
     \<lparr>u_seed = s, u_rng = np_default_rng np s, u_lo = lo, u_hi = hi\<rparr>"

definition Uniform_sample :: "'r numpy \<Rightarrow> 'r UniformContinuous \<Rightarrow> real \<times> 'r UniformContinuous" where
  "Uniform_sample np u =
     (case rng_uniform np (u_rng u) (u_lo u) (u_hi u) of (x, r) \<Rightarrow> (x, u\<lparr>u_rng := r\<rparr>))"

text \<open>\<open>PowerContinuous.reset_rng\<close>, \<open>__init__\<close> and \<open>sample\<close>.\<close>

definition Power_reset_rng :: "'r numpy \<Rightarrow> 'r PowerContinuous \<Rightarrow> int \<Rightarrow> 'r PowerContinuous" where
  "Power_reset_rng np p s = p\<lparr>p_uniform := Uniform_reset_rng np (p_uniform p) s\<rparr>"

definition PowerContinuous_init ::
  "'r numpy \<Rightarrow> real \<Rightarrow> real \<Rightarrow> real \<Rightarrow> int \<Rightarrow> 'r PowerContinuous" where
  "PowerContinuous_init np lo hi pw s =
     Power_reset_rng np
       \<lparr>p_seed = s, p_power = pw, p_uniform = UniformContinuous_init np lo hi 42\<rparr> s"

definition Power_sample :: "'r numpy \<Rightarrow> 'r PowerContinuous \<Rightarrow> real \<times> 'r PowerContinuous" where
  "Power_sample np p =
     (case Uniform_sample np (p_uniform p) of
        (x, u) \<Rightarrow> (np_power np x (p_power p), p\<lparr>p_uniform := u\<rparr>))"

text \<open>The three operations a dataset uses on a parent: \<open>dist.seed\<close>, \<open>dist.reset_rng\<close>, \<open>dist.sample\<close>.\<close>

fun seed_of :: "'r Continuous \<Rightarrow> int" where
  "seed_of (Uniform u) = u_seed u"
| "seed_of (Power p) = p_seed p"

fun reset_rng :: "'r numpy \<Rightarrow> 'r Continuous \<Rightarrow> int \<Rightarrow> 'r Continuous" where
  "reset_rng np (Uniform u) s = Uniform (Uniform_reset_rng np u s)"
| "reset_rng np (Power p) s = Power (Power_reset_rng np p s)"

fun sample :: "'r numpy \<Rightarrow> 'r Continuous \<Rightarrow> real \<times> 'r Continuous" where
  "sample np (Uniform u) = (case Uniform_sample np u of (x, u') \<Rightarrow> (x, Uniform u'))"
| "sample np (Power p) = (case Power_sample np p of (x, p') \<Rightarrow> (x, Power p'))"

section \<open>Infinite datasets (datasets.py, lines 31 to 83 and 146 to 156)\<close>

text \<open>
  A subclass of \<open>InfiniteDataset\<close> has the attributes \<open>seed\<close>, \<open>parent_vars\<close> and \<open>rng\<close>
  and supplies the method \<open>gen_sample\<close>. The dictionary \<open>parent_vars\<close> is an association
  list in insertion order, and so are the keyword arguments built from it. The method
  \<open>gen_sample\<close> is a field of the model: it sees the keyword arguments and the
  generator of the dataset, and may raise. \<open>MixedInfiniteDataset\<close> has \<open>seed\<close>,
  \<open>datasets\<close>, \<open>ps\<close> and \<open>rng\<close>; its \<open>parent_vars\<close> is always the empty dictionary and is
  left out. A composite holds its children by value: the model covers dataset trees
  in which no object occurs twice.
\<close>

type_synonym kwargs = "(string \<times> real) list"

datatype ('a, 'r) InfiniteDataset =
    UserInfiniteDataset int "(string \<times> 'r Continuous) list" 'r
      "'r \<Rightarrow> kwargs \<Rightarrow> error + ('a \<times> 'r)"
  | MixedInfiniteDataset int "('a, 'r) InfiniteDataset list" "real list option" 'r

fun seed_attr :: "('a, 'r) InfiniteDataset \<Rightarrow> int" where
  "seed_attr (UserInfiniteDataset s pvs r g) = s"
| "seed_attr (MixedInfiniteDataset s cs ps r) = s"

fun rng_attr :: "('a, 'r) InfiniteDataset \<Rightarrow> 'r" where
  "rng_attr (UserInfiniteDataset s pvs r g) = r"
| "rng_attr (MixedInfiniteDataset s cs ps r) = r"

fun datasets_attr :: "('a, 'r) InfiniteDataset \<Rightarrow> ('a, 'r) InfiniteDataset list" where
  "datasets_attr (UserInfiniteDataset s pvs r g) = []"
| "datasets_attr (MixedInfiniteDataset s cs ps r) = cs"

fun ps_attr :: "('a, 'r) InfiniteDataset \<Rightarrow> real list option" where
  "ps_attr (UserInfiniteDataset s pvs r g) = None"
| "ps_attr (MixedInfiniteDataset s cs ps r) = ps"

fun set_seed :: "int \<Rightarrow> ('a, 'r) InfiniteDataset \<Rightarrow> ('a, 'r) InfiniteDataset" where
  "set_seed s' (UserInfiniteDataset s pvs r g) = UserInfiniteDataset s' pvs r g"
| "set_seed s' (MixedInfiniteDataset s cs ps r) = MixedInfiniteDataset s' cs ps r"

text \<open>\<open>sample_parent_vars\<close>: one draw from every parent, in dictionary order.\<close>

fun sample_parent_vars ::
  "'r numpy \<Rightarrow> (string \<times> 'r Continuous) list \<Rightarrow> kwargs \<times> (string \<times> 'r Continuous) list" where
  "sample_parent_vars np [] = ([], [])"
| "sample_parent_vars np ((name, pv) # pvs) =
     (case sample np pv of
        (x, pv') \<Rightarrow>
          (case sample_parent_vars np pvs of
             (kw, pvs') \<Rightarrow> ((name, x) # kw, (name, pv') # pvs')))"

text \<open>
  \<open>__next__\<close> is \<open>self.gen_sample(**self.sample_parent_vars())\<close>; for the composite the
  keyword arguments are empty and \<open>gen_sample\<close> selects a child with \<open>self.rng.choice\<close>
  and runs the same expression on it. \<open>next_child\<close> runs the selected child and puts
  its new state back at its position; a position outside the list, which numpy never
  returns, is an \<open>IndexError\<close>. After an exception the model gives no state.
\<close>

fun next_infinite ::
    "'r numpy \<Rightarrow> ('a, 'r) InfiniteDataset \<Rightarrow> error + ('a \<times> ('a, 'r) InfiniteDataset)"
  and next_child ::
    "'r numpy \<Rightarrow> nat \<Rightarrow> ('a, 'r) InfiniteDataset list \<Rightarrow> error + ('a \<times> ('a, 'r) InfiniteDataset list)"
  where
  "next_infinite np (UserInfiniteDataset s pvs r g) =
     (case sample_parent_vars np pvs of
        (kw, pvs') \<Rightarrow>
          (case g r kw of
             Inl e \<Rightarrow> Inl e
           | Inr (x, r') \<Rightarrow> Inr (x, UserInfiniteDataset s pvs' r' g)))"
| "next_infinite np (MixedInfiniteDataset s cs ps r) =
     (case rng_choice np r (length cs) ps of
        Inl e \<Rightarrow> Inl e
      | Inr (i, r') \<Rightarrow>
          (case next_child np i cs of
             Inl e \<Rightarrow> Inl e
           | Inr (x, cs') \<Rightarrow> Inr (x, MixedInfiniteDataset s cs' ps r')))"
| "next_child np i [] = Inl IndexError"
| "next_child np 0 (c # cs) =
     (case next_infinite np c of
        Inl e \<Rightarrow> Inl e
      | Inr (x, c') \<Rightarrow> Inr (x, c' # cs))"
| "next_child np (Suc i) (c # cs) =
     (case next_child np i cs of
        Inl e \<Rightarrow> Inl e
      | Inr (x, cs') \<Rightarrow> Inr (x, c # cs'))"

text \<open>
  \<open>reset\<close>. Every call of \<open>np.random.default_rng\<close> that a reset makes is recorded, in
  the order the code makes it: \<open>OwnStream s\<close> for the generator of the dataset itself,
  \<open>ParentStream name s\<close> for the parent \<open>name\<close>, \<open>InChild i e\<close> for an event \<open>e\<close> inside
  the child at position \<open>i\<close>. \<open>InfiniteDataset.reset\<close> calls the hook \<open>_reset\<close> (which
  is \<open>pass\<close>), then \<open>self.reset_rng()\<close> with the default argument 42, then
  \<open>dist.reset_rng(dist.seed)\<close> for every parent. \<open>MixedInfiniteDataset.reset\<close> resets the
  children in list order, then calls \<open>self.reset_rng()\<close>.
\<close>

datatype event = OwnStream int | ParentStream string int | InChild nat event

fun reset ::
    "'r numpy \<Rightarrow> ('a, 'r) InfiniteDataset \<Rightarrow> ('a, 'r) InfiniteDataset \<times> event list"
  and reset_children ::
    "'r numpy \<Rightarrow> nat \<Rightarrow> ('a, 'r) InfiniteDataset list \<Rightarrow> ('a, 'r) InfiniteDataset list \<times> event list"
  where
  "reset np (UserInfiniteDataset s pvs r g) =
     (UserInfiniteDataset s
        (map (\<lambda>(name, pv). (name, reset_rng np pv (seed_of pv))) pvs)
        (np_default_rng np 42) g,
      OwnStream 42 # map (\<lambda>(name, pv). ParentStream name (seed_of pv)) pvs)"
| "reset np (MixedInfiniteDataset s cs ps r) =
     (case reset_children np 0 cs of
        (cs', evs) \<Rightarrow> (MixedInfiniteDataset s cs' ps (np_default_rng np 42), evs @ [OwnStream 42]))"
| "reset_children np i [] = ([], [])"
| "reset_children np i (c # cs) =
     (case reset np c of
        (c', evs) \<Rightarrow>
          (case reset_children np (Suc i) cs of
             (cs', evs') \<Rightarrow> (c' # cs', map (InChild i) evs @ evs')))"

text \<open>
  The constructors. \<open>Dataset.__init__\<close> calls \<open>self.reset()\<close>. The attribute \<open>rng\<close> does
  not exist before that call; the value given to it here is overwritten by \<open>reset\<close>.
\<close>

definition InfiniteDataset_init ::
  "'r numpy \<Rightarrow> (string \<times> 'r Continuous) list \<Rightarrow> int \<Rightarrow> ('r \<Rightarrow> kwargs \<Rightarrow> error + ('a \<times> 'r))
     \<Rightarrow> ('a, 'r) InfiniteDataset" where
  "InfiniteDataset_init np parent_vars s g =
     fst (reset np (UserInfiniteDataset s parent_vars (np_default_rng np 42) g))"

definition MixedInfiniteDataset_init ::
  "'r numpy \<Rightarrow> ('a, 'r) InfiniteDataset list \<Rightarrow> real list option \<Rightarrow> int
     \<Rightarrow> error + ('a, 'r) InfiniteDataset" where
  "MixedInfiniteDataset_init np datasets ps s =
     (if ps \<noteq> None \<and> length datasets \<noteq> length (the ps) then Inl ValueError
      else Inr (fst (reset np (MixedInfiniteDataset s datasets ps (np_default_rng np 42)))))"

text \<open>
  \<open>MyInfiniteDataset\<close>: \<open>gen_sample(self, l=None, frac=None)\<close> returns \<open>frac * l\<close>. A
  keyword other than \<open>l\<close> and \<open>frac\<close>, or a missing one (then \<open>None\<close> is multiplied),
  raises \<open>TypeError\<close>.
\<close>

definition MyInfiniteDataset_gen_sample :: "'r \<Rightarrow> kwargs \<Rightarrow> error + (real \<times> 'r)" where
  "MyInfiniteDataset_gen_sample r kw =
     (if list_ex (\<lambda>(name, x). name \<noteq> ''l'' \<and> name \<noteq> ''frac'') kw then Inl TypeError
      else case (map_of kw ''l'', map_of kw ''frac'') of
             (Some l, Some fr) \<Rightarrow> Inr (fr * l, r)
           | _ \<Rightarrow> Inl TypeError)"

definition MyInfiniteDataset_init ::
  "'r numpy \<Rightarrow> real \<Rightarrow> real \<Rightarrow> real \<Rightarrow> (real, 'r) InfiniteDataset" where
  "MyInfiniteDataset_init np lmin lmax pw =
     InfiniteDataset_init np
       [(''l'', Uniform (UniformContinuous_init np lmin lmax 42)),
        (''frac'', Power (PowerContinuous_init np 0 1 pw 42))]
       42 MyInfiniteDataset_gen_sample"

text \<open>A consumer that draws \<open>n\<close> samples; an exception ends it.\<close>

fun take_infinite ::
  "'r numpy \<Rightarrow> nat \<Rightarrow> ('a, 'r) InfiniteDataset \<Rightarrow> error + ('a list \<times> ('a, 'r) InfiniteDataset)" where
  "take_infinite np 0 d = Inr ([], d)"
| "take_infinite np (Suc n) d =
     (case next_infinite np d of
        Inl e \<Rightarrow> Inl e
      | Inr (x, d') \<Rightarrow>
          (case take_infinite np n d' of
             Inl e \<Rightarrow> Inl e
           | Inr (xs, d'') \<Rightarrow> Inr (x # xs, d'')))"

text \<open>
  A consumer that runs any sequence of \<open>next\<close> and \<open>reset\<close> calls and collects what the
  \<open>next\<close> calls return, up to the first exception.
\<close>

datatype call = Next | Reset

fun run :: "'r numpy \<Rightarrow> call list \<Rightarrow> ('a, 'r) InfiniteDataset \<Rightarrow> 'a list \<times> error option" where
  "run np [] d = ([], None)"
| "run np (Reset # cs) d = run np cs (fst (reset np d))"
| "run np (Next # cs) d =
     (case next_infinite np d of
        Inl e \<Rightarrow> ([], Some e)
      | Inr (x, d') \<Rightarrow> (case run np cs d' of (xs, r) \<Rightarrow> (x # xs, r)))"

text \<open>
  What a composite is about to select: the position that
  \<open>self.rng.choice(self.datasets, p=self.ps)\<close> returns in the present state, and the
  positions selected over the next \<open>n\<close> draws.
\<close>

definition selected :: "'r numpy \<Rightarrow> ('a, 'r) InfiniteDataset \<Rightarrow> error + nat" where
  "selected np d =
     map_sum id fst (rng_choice np (rng_attr d) (length (datasets_attr d)) (ps_attr d))"

fun selections :: "'r numpy \<Rightarrow> nat \<Rightarrow> ('a, 'r) InfiniteDataset \<Rightarrow> error + nat list" where
  "selections np 0 d = Inr []"
| "selections np (Suc n) d =
     (case selected np d of
        Inl e \<Rightarrow> Inl e
      | Inr i \<Rightarrow>
          (case next_infinite np d of
             Inl e \<Rightarrow> Inl e
           | Inr (x, d') \<Rightarrow>
               (case selections np n d' of
                  Inl e \<Rightarrow> Inl e
                | Inr js \<Rightarrow> Inr (i # js))))"

section \<open>A small generator for running the model\<close>

text \<open>
  A deterministic stand-in for numpy, used where the model is run on concrete
  datasets. The state is a counter that starts at the seed; a uniform draw returns
  \<open>lo + (hi - lo) * u\<close> with \<open>u\<close> cycling through 0, 1/4, 1/2, 3/4, so it lies in
  \<open>[lo, hi)\<close> whenever \<open>lo < hi\<close>; a choice among \<open>n\<close> items returns the counter modulo
  \<open>n\<close>, and raises \<open>ValueError\<close> on an empty list as numpy does; \<open>counter_power x p\<close> is
  \<open>x\<close> for \<open>p = 1\<close>.
\<close>

definition counter_uniform :: "nat \<Rightarrow> real \<Rightarrow> real \<Rightarrow> real \<times> nat" where
  "counter_uniform r lo hi = (lo + (hi - lo) * (real (r mod 4) / 4), Suc r)"

definition counter_choice :: "nat \<Rightarrow> nat \<Rightarrow> real list option \<Rightarrow> error + (nat \<times> nat)" where
  "counter_choice r n ps = (if n = 0 then Inl ValueError else Inr (r mod n, Suc r))"

definition counter_power :: "real \<Rightarrow> real \<Rightarrow> real" where
  "counter_power x p = x ^ nat \<lfloor>p\<rfloor>"

definition counter_numpy :: "nat numpy" where
  "counter_numpy =
     \<lparr>np_default_rng = nat, rng_uniform = counter_uniform,
      rng_choice = counter_choice, np_power = counter_power\<rparr>"

section \<open>The generator numpy seeds with \<open>default_rng\<close>\<close>

text \<open>
  Every generator of the program is \<open>np.random.default_rng(seed)\<close>, a \<open>PCG64\<close> seeded
  through \<open>SeedSequence\<close>, and every seed the driver uses is the default 42. What
  follows is numpy's algorithm for the seeding and for one uniform draw, taken from
  numpy's sources (\<open>bit_generator.pyx\<close>, \<open>pcg64.h\<close>, \<open>distributions.c\<close>), which are not
  part of the repository. Words are 32, 64 and 128 bits wide and wrap around.

  \<open>SeedSequence\<close>: \<open>hashmix\<close> takes and returns the running hash constant; \<open>mix\<close>
  combines two words; \<open>int_to_array\<close> splits the seed into 32-bit words, lowest first
  (numpy raises \<open>ValueError\<close> for a negative seed, which the total function
  \<open>np_default_rng\<close> of the model cannot express: the words of a negative seed are not
  meant). \<open>mix_entropy\<close> fills the pool of four words from the entropy, mixes every
  word into every other, then mixes in the entropy words beyond the fourth.
  \<open>generate_state\<close> produces the output words from the pool.
\<close>

unbundle bit_operations_syntax

definition hashmix :: "32 word \<Rightarrow> 32 word \<Rightarrow> 32 word \<times> 32 word" where
  "hashmix v hash_const =
     (let v1 = v XOR hash_const;
          hash_const' = hash_const * 0x931e8875;
          v2 = v1 * hash_const'
      in (v2 XOR drop_bit 16 v2, hash_const'))"

definition mix :: "32 word \<Rightarrow> 32 word \<Rightarrow> 32 word" where
  "mix x y = (let r = 0xca01f9dd * x - 0x4973f715 * y in r XOR drop_bit 16 r)"

function int_to_array :: "int \<Rightarrow> 32 word list" where
  "int_to_array n =
     (if n < 4294967296 then [word_of_int n]
      else word_of_int n # int_to_array (n div 4294967296))"
  by pat_completeness auto
termination
  by (relation "measure nat") auto

fun fill_pool :: "nat \<Rightarrow> 32 word list \<Rightarrow> 32 word \<Rightarrow> 32 word list \<times> 32 word" where
  "fill_pool 0 entropy hash_const = ([], hash_const)"
| "fill_pool (Suc n) entropy hash_const =
     (case hashmix (case entropy of [] \<Rightarrow> 0 | e # es \<Rightarrow> e) hash_const of
        (v, hash_const') \<Rightarrow>
          (case fill_pool n (tl entropy) hash_const' of
             (vs, hash_const'') \<Rightarrow> (v # vs, hash_const'')))"

definition mix_from :: "32 word \<Rightarrow> nat \<Rightarrow> 32 word list \<times> 32 word \<Rightarrow> 32 word list \<times> 32 word" where
  "mix_from src i_dst st =
     (case st of (mixer, hash_const) \<Rightarrow>
        (case hashmix src hash_const of
           (h, hash_const') \<Rightarrow> (mixer[i_dst := mix (mixer ! i_dst) h], hash_const')))"

definition mix_entropy :: "32 word list \<Rightarrow> 32 word list" where
  "mix_entropy entropy =
     (let st0 = fill_pool 4 entropy 0x43b0d7e5;
          st1 = fold (\<lambda>(i_src, i_dst) st. if i_src \<noteq> i_dst then mix_from (fst st ! i_src) i_dst st else st)
                  (List.product [0 ..< 4] [0 ..< 4]) st0;
          st2 = fold (\<lambda>(e, i_dst) st. mix_from e i_dst st)
                  (List.product (drop 4 entropy) [0 ..< 4]) st1
      in fst st2)"

definition generate_state :: "32 word list \<Rightarrow> nat \<Rightarrow> 32 word list" where
  "generate_state pool n_words =
     fst (fold (\<lambda>i_dst (state, hash_const).
            (let v = (pool ! (i_dst mod 4)) XOR hash_const;
                 hash_const' = hash_const * 0x58f38ded;
                 v2 = v * hash_const'
             in (state @ [v2 XOR drop_bit 16 v2], hash_const')))
          [0 ..< n_words] ([], 0x8b51f9dd))"

text \<open>
  \<open>PCG64\<close>: the state and the increment are 128-bit words. Seeding takes eight 32-bit
  words of \<open>generate_state\<close>, read as four little-endian 64-bit words: the first two
  (high, low) are the initial state, the last two the initial sequence. A step is
  \<open>state * multiplier + inc\<close>; the output (XSL-RR) is the exclusive or of the two
  halves of the new state, rotated right by its top six bits. \<open>next_double\<close> is the top
  53 bits of the output divided by \<open>2^53\<close>, and \<open>uniform(lo, hi)\<close> is
  \<open>lo + (hi - lo) * next_double\<close>.
\<close>

record pcg64 =
  pcg_state :: "128 word"
  pcg_inc :: "128 word"

definition pcg_step :: "pcg64 \<Rightarrow> pcg64" where
  "pcg_step r = r\<lparr>pcg_state := pcg_state r * 0x2360ED051FC65DA44385DF649FCCF645 + pcg_inc r\<rparr>"

definition join64 :: "32 word \<Rightarrow> 32 word \<Rightarrow> 128 word" where
  "join64 lo hi = ucast lo OR push_bit 32 (ucast hi)"

definition default_rng_pcg64 :: "int \<Rightarrow> pcg64" where
  "default_rng_pcg64 seed =
     (let w = generate_state (mix_entropy (int_to_array seed)) 8;
          initstate = push_bit 64 (join64 (w ! 0) (w ! 1)) OR join64 (w ! 2) (w ! 3);
          initseq = push_bit 64 (join64 (w ! 4) (w ! 5)) OR join64 (w ! 6) (w ! 7);
          r0 = pcg_step \<lparr>pcg_state = 0, pcg_inc = push_bit 1 initseq OR 1\<rparr>
      in pcg_step (r0\<lparr>pcg_state := pcg_state r0 + initstate\<rparr>))"

definition next_uint64 :: "pcg64 \<Rightarrow> 64 word \<times> pcg64" where
  "next_uint64 r =
     (let r' = pcg_step r;
          s = pcg_state r';
          x = (ucast (drop_bit 64 s) :: 64 word) XOR ucast s;
          rot = unat (drop_bit 122 s)
      in (drop_bit rot x OR push_bit ((64 - rot) mod 64) x, r'))"

definition next_double :: "pcg64 \<Rightarrow> real \<times> pcg64" where
  "next_double r =
     (case next_uint64 r of (v, r') \<Rightarrow> (real_of_int (uint (drop_bit 11 v)) / 9007199254740992, r'))"

definition uniform_pcg64 :: "pcg64 \<Rightarrow> real \<Rightarrow> real \<Rightarrow> real \<times> pcg64" where
  "uniform_pcg64 r lo hi = (case next_double r of (u, r') \<Rightarrow> (lo + (hi - lo) * u, r'))"

text \<open>
  numpy as this generator. \<open>Generator.choice\<close> and \<open>np.power\<close> stay parameters. The
  first \<open>next_double\<close> after \<open>default_rng(42)\<close> is \<open>seed42_draw\<close>, the double that
  Python prints as \<open>0.7739560485559633\<close>.
\<close>

definition pcg64_numpy ::
  "(pcg64 \<Rightarrow> nat \<Rightarrow> real list option \<Rightarrow> error + (nat \<times> pcg64)) \<Rightarrow> (real \<Rightarrow> real \<Rightarrow> real)
     \<Rightarrow> pcg64 numpy" where
  "pcg64_numpy ch pw =
     \<lparr>np_default_rng = default_rng_pcg64, rng_uniform = uniform_pcg64,
      rng_choice = ch, np_power = pw\<rparr>"

definition seed42_draw :: real where
  "seed42_draw = 6971176343755556 / 9007199254740992"

text \<open>
  The driver at the end of datasets.py builds \<open>ds2 = MyInfiniteDataset(1, 2, 1)\<close>,
  \<open>ds5 = MyInfiniteDataset(0.1, 0.25, 3)\<close> and \<open>ds6 = MixedInfiniteDataset([ds2, ds5])\<close>;
  here they are on the small generator.
\<close>

definition demo_children :: "(real, nat) InfiniteDataset list" where
  "demo_children =
     [MyInfiniteDataset_init counter_numpy 1 2 1,
      MyInfiniteDataset_init counter_numpy (1 / 10) (1 / 4) 3]"

definition demo_mixed :: "(real, nat) InfiniteDataset" where
  "demo_mixed = fst (reset counter_numpy (MixedInfiniteDataset 42 demo_children None 42))"

section \<open>Concatenation of finite datasets\<close>

text \<open>
  Where \<open>__add__\<close> returns, its result has the length of both operands and routes an
  index to the operand that holds it; two composites are merged into one flat list of
  children, and that merge is associative.
\<close>

lemma len_nonneg: "consistent d \<Longrightarrow> 0 \<le> len d"
proof (induction d)
  case (MyFiniteDataset dat i sz)
  then show ?case by simp
next
  case (MixedFiniteDataset ds ls sz i)
  have "\<And>x. x \<in> set ds \<Longrightarrow> 0 \<le> len x"
    using MixedFiniteDataset by (simp add: list_all_iff)
  then have "0 \<le> sum_list (map len ds)" by (intro sum_list_nonneg) auto
  then show ?case using MixedFiniteDataset.prems by simp
qed

lemma getitem_loop_append:
  assumes "\<And>d. d \<in> set ds \<Longrightarrow> 0 \<le> len d" and "0 \<le> k \<or> ds \<noteq> []"
  shows "getitem_loop (ds @ ds') (map len (ds @ ds')) k =
     (if k < sum_list (map len ds) then getitem_loop ds (map len ds) k
      else getitem_loop ds' (map len ds') (k - sum_list (map len ds)))"
  using assms
proof (induction ds arbitrary: k)
  case Nil
  then show ?case by simp
next
  case (Cons d ds)
  have d0: "0 \<le> len d" using Cons.prems(1) by simp
  have rest: "0 \<le> sum_list (map len ds)"
    using Cons.prems(1) by (intro sum_list_nonneg) auto
  show ?case
  proof (cases "k < len d")
    case True
    then show ?thesis using rest by simp
  next
    case False
    then have "0 \<le> k - len d \<or> ds \<noteq> []" by simp
    then have "getitem_loop (ds @ ds') (map len (ds @ ds')) (k - len d) =
       (if k - len d < sum_list (map len ds) then getitem_loop ds (map len ds) (k - len d)
        else getitem_loop ds' (map len ds') (k - len d - sum_list (map len ds)))"
      using Cons.prems(1) by (intro Cons.IH) auto
    then show ?thesis using False by (simp add: algebra_simps)
  qed
qed

lemma add_concatenates:
  assumes a: "consistent a" and b: "consistent b" and ab: "add a b = Inr c"
  shows "len c = len a + len b"
    and "0 \<le> k \<Longrightarrow> k < len a \<Longrightarrow> getitem c k = getitem a k"
    and "len a \<le> k \<Longrightarrow> k < len a + len b \<Longrightarrow> getitem c k = getitem b (k - len a)"
    and "consistent c"
proof -
  show "len c = len a + len b"
    using a b ab by (cases a; cases b) (auto simp add: MixedFiniteDataset_init_def)
  show "consistent c"
    using a b ab by (cases a; cases b) (auto simp add: MixedFiniteDataset_init_def)
  show "getitem c k = getitem a k" if "0 \<le> k" "k < len a"
  proof (cases a)
    case (MyFiniteDataset dat i sz)
    then show ?thesis using ab that by (auto simp add: MixedFiniteDataset_init_def)
  next
    case A: (MixedFiniteDataset ds ls sz i)
    show ?thesis
    proof (cases b)
      case (MyFiniteDataset dat i' sz')
      then show ?thesis using ab A by simp
    next
      case B: (MixedFiniteDataset ds' ls' sz' i')
      have nn: "\<And>d. d \<in> set ds \<Longrightarrow> 0 \<le> len d"
        using a A by (auto simp add: list_all_iff intro: len_nonneg)
      have c: "c = MixedFiniteDataset_init (ds @ ds')" using ab A B by simp
      have k0: "0 \<le> k \<or> ds \<noteq> []" using that by simp
      show ?thesis
        using getitem_loop_append [where ds = ds and k = k and ds' = ds', OF nn k0] that a A
        by (simp add: c MixedFiniteDataset_init_def)
    qed
  qed
  show "getitem c k = getitem b (k - len a)" if "len a \<le> k" "k < len a + len b"
  proof (cases a)
    case (MyFiniteDataset dat i sz)
    then have "c = MixedFiniteDataset_init [a, b]" using ab by simp
    then show ?thesis using that by (simp add: MixedFiniteDataset_init_def)
  next
    case A: (MixedFiniteDataset ds ls sz i)
    show ?thesis
    proof (cases b)
      case (MyFiniteDataset dat i' sz')
      then show ?thesis using ab A by simp
    next
      case B: (MixedFiniteDataset ds' ls' sz' i')
      have nn: "\<And>d. d \<in> set ds \<Longrightarrow> 0 \<le> len d"
        using a A by (auto simp add: list_all_iff intro: len_nonneg)
      have c: "c = MixedFiniteDataset_init (ds @ ds')" using ab A B by simp
      have "0 \<le> len a" using a by (rule len_nonneg)
      then have k0: "0 \<le> k \<or> ds \<noteq> []" using that by simp
      show ?thesis
        using getitem_loop_append [where ds = ds and k = k and ds' = ds', OF nn k0] that a b A B
        by (simp add: c MixedFiniteDataset_init_def)
    qed
  qed
qed

lemma add_composites_assoc:
  "add (MixedFiniteDataset_init (ds @ ds')) (MixedFiniteDataset ds'' ls'' sz'' i'')
     = Inr (MixedFiniteDataset_init (ds @ ds' @ ds''))
   \<and> add (MixedFiniteDataset ds ls sz i) (MixedFiniteDataset_init (ds' @ ds''))
     = Inr (MixedFiniteDataset_init (ds @ ds' @ ds''))"
  by (simp add: MixedFiniteDataset_init_def)

lemma constructors_consistent:
  "consistent (MyFiniteDataset_of dat)"
  "list_all consistent ds \<Longrightarrow> consistent (MixedFiniteDataset_init ds)"
  by (simp_all add: MyFiniteDataset_of_def MixedFiniteDataset_init_def Let_def)

lemma next_finite_consistent: "consistent d \<Longrightarrow> next_finite d = Inr (x, d') \<Longrightarrow> consistent d'"
  by (cases d) (auto simp add: next_finite_def split: if_splits sum.splits)

section \<open>What a draw leaves unchanged\<close>

text \<open>
  A draw changes generator states only, and \<open>reset\<close> overwrites every generator state
  from the stored seeds: so resetting after any number of draws gives the state that
  resetting before them gives, and resetting twice is resetting once.
\<close>

lemma sample_seed_of: "seed_of (snd (sample np pv)) = seed_of pv"
  by (cases pv) (simp_all add: Uniform_sample_def Power_sample_def split: prod.splits)

lemma sample_reset_rng: "reset_rng np (snd (sample np pv)) s = reset_rng np pv s"
  by (cases pv)
     (simp_all add: Uniform_sample_def Power_sample_def Uniform_reset_rng_def Power_reset_rng_def
        split: prod.splits)

lemma reset_rng_seed_of: "seed_of (reset_rng np pv s) = seed_of pv"
  by (cases pv) (simp_all add: Uniform_reset_rng_def Power_reset_rng_def)

lemma reset_rng_twice: "reset_rng np (reset_rng np pv s') s = reset_rng np pv s"
  by (cases pv) (simp_all add: Uniform_reset_rng_def Power_reset_rng_def)

lemma sample_parent_vars_reset:
  "sample_parent_vars np pvs = (kw, pvs') \<Longrightarrow>
     map (\<lambda>(name, pv). (name, reset_rng np pv (seed_of pv))) pvs'
       = map (\<lambda>(name, pv). (name, reset_rng np pv (seed_of pv))) pvs
   \<and> map (\<lambda>(name, pv). ParentStream name (seed_of pv)) pvs'
       = map (\<lambda>(name, pv). ParentStream name (seed_of pv)) pvs"
proof (induction pvs arbitrary: kw pvs')
  case Nil
  then show ?case by simp
next
  case (Cons a pvs)
  obtain name pv where a: "a = (name, pv)" by (cases a)
  obtain x pv' where s: "sample np pv = (x, pv')" by (cases "sample np pv")
  obtain kw0 pvs0 where r: "sample_parent_vars np pvs = (kw0, pvs0)"
    by (cases "sample_parent_vars np pvs")
  from Cons.prems a s r have p: "pvs' = (name, pv') # pvs0" by simp
  have pv': "pv' = snd (sample np pv)" using s by simp
  show ?case using Cons.IH [OF r] by (simp add: p a pv' sample_seed_of sample_reset_rng)
qed

lemma next_keeps_reset:
  fixes d :: "('a, 'r) InfiniteDataset" and cs :: "('a, 'r) InfiniteDataset list"
  shows "next_infinite np d = Inr (x, d') \<Longrightarrow> reset np d' = reset np d"
    and "next_child np i cs = Inr (x, cs') \<Longrightarrow> reset_children np j cs' = reset_children np j cs"
proof (induction np d and np i cs arbitrary: x d' and x cs' j rule: next_infinite_next_child.induct)
  case (1 np s pvs r g)
  obtain kw pvs' where spv: "sample_parent_vars np pvs = (kw, pvs')"
    by (cases "sample_parent_vars np pvs")
  from "1.prems" spv obtain r' where d': "d' = UserInfiniteDataset s pvs' r' g"
    by (auto split: sum.splits)
  show ?case using sample_parent_vars_reset [OF spv] by (simp add: d')
next
  case (2 np s cs ps r)
  from "2.prems" obtain i r' cs0 where
    ch: "rng_choice np r (length cs) ps = Inr (i, r')" and
    nc: "next_child np i cs = Inr (x, cs0)" and
    d': "d' = MixedInfiniteDataset s cs0 ps r'"
    by (auto split: sum.splits)
  have "reset_children np 0 cs0 = reset_children np 0 cs"
    using "2.IH" [OF ch refl nc] .
  then show ?case by (simp add: d')
next
  case (3 np i)
  then show ?case by simp
next
  case (4 np c cs)
  from "4.prems" obtain c' where
    nx: "next_infinite np c = Inr (x, c')" and cs': "cs' = c' # cs"
    by (auto split: sum.splits)
  show ?case using "4.IH" [OF nx] by (simp add: cs')
next
  case (5 np i c cs)
  from "5.prems" obtain cs0 where
    nc: "next_child np i cs = Inr (x, cs0)" and cs': "cs' = c # cs0"
    by (auto split: sum.splits)
  show ?case using "5.IH" [OF nc] by (simp add: cs')
qed

lemma next_infinite_reset: "next_infinite np d = Inr (x, d') \<Longrightarrow> reset np d' = reset np d"
  by (rule next_keeps_reset(1))

lemma take_infinite_reset: "take_infinite np n d = Inr (xs, d') \<Longrightarrow> reset np d' = reset np d"
proof (induction n arbitrary: d xs d')
  case 0
  then show ?case by simp
next
  case (Suc n)
  then show ?case
    by (auto split: sum.splits prod.splits dest: next_infinite_reset)
qed

lemma reset_twice:
  fixes d :: "('a, 'r) InfiniteDataset" and cs :: "('a, 'r) InfiniteDataset list"
  shows "reset np (fst (reset np d)) = reset np d"
    and "reset_children np i (fst (reset_children np i cs)) = reset_children np i cs"
proof (induction np d and np i cs rule: reset_reset_children.induct)
  case (1 np s pvs r g)
  then show ?case
    by (simp add: comp_def case_prod_unfold reset_rng_seed_of reset_rng_twice)
next
  case (2 np s cs ps r)
  then show ?case by (simp add: case_prod_unfold)
next
  case (3 np i)
  then show ?case by simp
next
  case (4 np i c cs)
  have tl: "reset_children np (Suc i) (fst (reset_children np (Suc i) cs))
              = reset_children np (Suc i) cs"
    using "4.IH"(2) [OF prod.collapse] .
  show ?case by (simp add: case_prod_unfold "4.IH"(1) tl)
qed

lemma reset_children_events:
  "snd (reset_children np i cs)
     = concat (map (\<lambda>(j, c). map (InChild j) (snd (reset np c))) (enumerate i cs))"
  by (induction cs arbitrary: i) (simp_all add: case_prod_unfold)

lemma reset_children_length: "length (fst (reset_children np i cs)) = length cs"
  by (induction cs arbitrary: i) (simp_all add: case_prod_unfold)

lemma infinite_reset_repeats:
  assumes "take_infinite np n (fst (reset np d)) = Inr (xs, d')"
  shows "take_infinite np n (fst (reset np d')) = Inr (xs, d')"
proof -
  have "reset np d' = reset np (fst (reset np d))" using assms by (rule take_infinite_reset)
  then have "reset np d' = reset np d" by (simp only: reset_twice(1))
  then show ?thesis using assms by simp
qed

lemma reset_set_seed: "reset np (set_seed s d) = (set_seed s (fst (reset np d)), snd (reset np d))"
  by (cases d) (simp_all add: case_prod_unfold)

lemma next_set_seed:
  "next_infinite np (set_seed s d) = map_sum id (\<lambda>(x, d'). (x, set_seed s d')) (next_infinite np d)"
  by (cases d) (simp_all add: case_prod_unfold split: sum.splits)

lemma run_set_seed: "run np calls (set_seed s d) = run np calls d"
proof (induction calls arbitrary: d)
  case Nil
  then show ?case by simp
next
  case (Cons c calls)
  show ?case
  proof (cases c)
    case Next
    show ?thesis
    proof (cases "next_infinite np d")
      case (Inl e)
      then show ?thesis by (simp add: Next next_set_seed)
    next
      case (Inr xd)
      then show ?thesis by (cases xd) (simp add: Next next_set_seed Cons.IH)
    qed
  next
    case Reset
    then show ?thesis by (simp add: reset_set_seed Cons.IH)
  qed
qed

lemma rng_attr_reset: "rng_attr (fst (reset np d)) = np_default_rng np 42"
  by (cases d) (simp_all add: case_prod_unfold)

lemma my_first_sample:
  "next_infinite np (MyInfiniteDataset_init np lmin lmax pw)
     = Inr (np_power np (fst (rng_uniform np (np_default_rng np 42) 0 1)) pw
              * fst (rng_uniform np (np_default_rng np 42) lmin lmax),
            UserInfiniteDataset 42
              [(''l'', Uniform \<lparr>u_seed = 42,
                   u_rng = snd (rng_uniform np (np_default_rng np 42) lmin lmax),
                   u_lo = lmin, u_hi = lmax\<rparr>),
               (''frac'', Power \<lparr>p_seed = 42, p_power = pw,
                   p_uniform = \<lparr>u_seed = 42,
                     u_rng = snd (rng_uniform np (np_default_rng np 42) 0 1),
                     u_lo = 0, u_hi = 1\<rparr>\<rparr>)]
              (np_default_rng np 42) MyInfiniteDataset_gen_sample)"
  by (simp add: MyInfiniteDataset_init_def InfiniteDataset_init_def
      UniformContinuous_init_def PowerContinuous_init_def Power_reset_rng_def Uniform_reset_rng_def
      Uniform_sample_def Power_sample_def MyInfiniteDataset_gen_sample_def case_prod_unfold)

lemma init_reset_fixed: "fst (reset np (InfiniteDataset_init np pvs s g)) = InfiniteDataset_init np pvs s g"
  by (simp only: InfiniteDataset_init_def reset_twice(1))

lemma seed42_state: "default_rng_pcg64 42 =
    \<lparr>pcg_state = 274674114334540486603088602300644985544,
     pcg_inc = 332724090758049132448979897138935081983\<rparr>"
  by code_simp

lemma seed42_bits: "uint (drop_bit 11 (fst (next_uint64 (default_rng_pcg64 42)))) = 6971176343755556"
  by code_simp

lemma seed42_double: "fst (next_double (default_rng_pcg64 42)) = seed42_draw"
  by (simp only: next_double_def case_prod_unfold fst_conv seed42_bits of_int_numeral seed42_draw_def)

lemma seed42_uniform:
  "fst (uniform_pcg64 (default_rng_pcg64 42) lo hi) = lo + (hi - lo) * seed42_draw"
  by (simp only: uniform_pcg64_def case_prod_unfold fst_conv seed42_double)

lemma first_sample_after_reset:
  assumes "take_infinite np k (InfiniteDataset_init np pvs s g) = Inr (xs, d)"
  shows "fst (reset np d) = InfiniteDataset_init np pvs s g"
proof -
  have "reset np d = reset np (InfiniteDataset_init np pvs s g)"
    using assms by (rule take_infinite_reset)
  then show ?thesis by (simp add: init_reset_fixed)
qed

lemma demo_take: "\<not> isl (take_infinite counter_numpy 2 demo_mixed)"
  by code_simp

section \<open>The claims\<close>

text \<open>
  Claim C1. A \<open>MixedInfiniteDataset\<close> is built and \<open>k\<close> samples are drawn from it. Then
  \<open>reset\<close> gives back the state a new instance built from the same arguments has, so
  the next \<open>n\<close> samples, and the positions the dispatcher selects for them, are those
  of the new instance, for every \<open>n\<close>. The generators a reset of a composite seeds
  are, in this order: for each child in list order everything the reset of that child
  seeds, then the dispatcher's own generator, with seed 42.
\<close>

theorem mixed_reset_resumes_as_new:
  assumes init: "MixedInfiniteDataset_init np cs ps s = Inr m0"
    and draws: "take_infinite np k m0 = Inr (xs, m)"
  shows "fst (reset np m) = m0
    \<and> take_infinite np n (fst (reset np m)) = take_infinite np n m0
    \<and> selections np n (fst (reset np m)) = selections np n m0
    \<and> snd (reset np (MixedInfiniteDataset s' cs' ps' r'))
        = concat (map (\<lambda>(j, c). map (InChild j) (snd (reset np c))) (enumerate 0 cs'))
          @ [OwnStream 42]"
proof -
  let ?raw = "MixedInfiniteDataset s cs ps (np_default_rng np 42)"
  from init have m0: "m0 = fst (reset np ?raw)"
    by (simp add: MixedInfiniteDataset_init_def split: if_splits)
  have "reset np m = reset np m0" using draws by (rule take_infinite_reset)
  also have "\<dots> = reset np ?raw" unfolding m0 by (rule reset_twice(1))
  finally have st: "fst (reset np m) = m0" by (simp add: m0)
  have ev: "snd (reset np (MixedInfiniteDataset s' cs' ps' r'))
        = concat (map (\<lambda>(j, c). map (InChild j) (snd (reset np c))) (enumerate 0 cs'))
          @ [OwnStream 42]"
    using reset_children_events [of np 0 cs'] by (simp add: case_prod_unfold)
  show ?thesis using st ev by simp
qed

theorem mixed_reset_resumes_as_new_witness:
  "fst (reset counter_numpy (snd (projr (take_infinite counter_numpy 2 demo_mixed)))) = demo_mixed
   \<and> take_infinite counter_numpy 3
        (fst (reset counter_numpy (snd (projr (take_infinite counter_numpy 2 demo_mixed)))))
      = take_infinite counter_numpy 3 demo_mixed
   \<and> selections counter_numpy 3
        (fst (reset counter_numpy (snd (projr (take_infinite counter_numpy 2 demo_mixed)))))
      = selections counter_numpy 3 demo_mixed
   \<and> snd (reset counter_numpy (MixedInfiniteDataset 42 demo_children None 42))
      = [InChild 0 (OwnStream 42), InChild 0 (ParentStream ''l'' 42),
         InChild 0 (ParentStream ''frac'' 42),
         InChild 1 (OwnStream 42), InChild 1 (ParentStream ''l'' 42),
         InChild 1 (ParentStream ''frac'' 42),
         OwnStream 42]"
proof -
  have init: "MixedInfiniteDataset_init counter_numpy demo_children None 42 = Inr demo_mixed"
    by (simp add: MixedInfiniteDataset_init_def demo_mixed_def counter_numpy_def)
  from demo_take obtain xs d where t: "take_infinite counter_numpy 2 demo_mixed = Inr (xs, d)"
    by (cases "take_infinite counter_numpy 2 demo_mixed") auto
  have draws: "take_infinite counter_numpy 2 demo_mixed
      = Inr (xs, snd (projr (take_infinite counter_numpy 2 demo_mixed)))"
    by (simp add: t)
  have ev: "concat (map (\<lambda>(j, c). map (InChild j) (snd (reset counter_numpy c)))
              (enumerate 0 demo_children)) @ [OwnStream 42]
      = [InChild 0 (OwnStream 42), InChild 0 (ParentStream ''l'' 42),
         InChild 0 (ParentStream ''frac'' 42),
         InChild 1 (OwnStream 42), InChild 1 (ParentStream ''l'' 42),
         InChild 1 (ParentStream ''frac'' 42),
         OwnStream 42]"
    by (simp add: demo_children_def MyInfiniteDataset_init_def InfiniteDataset_init_def
        UniformContinuous_init_def PowerContinuous_init_def Power_reset_rng_def
        Uniform_reset_rng_def)
  show ?thesis
    using mixed_reset_resumes_as_new [OF init draws, of 3 42 demo_children None 42]
    by (simp only: ev) 
qed

text \<open>
  Claim C2. Resetting and taking \<open>n\<close> elements twice gives the same elements twice.
  For the infinite datasets this is \<open>infinite_reset_repeats\<close>. For the finite datasets
  it fails: \<open>reset\<close> leaves the cursor where it is, so after four elements were taken
  from \<open>MyFiniteDataset\<close> a second \<open>reset\<close> and take gives nothing.
\<close>

theorem finite_reset_take_differs:
  "take_finite 4 (reset_finite MyFiniteDataset_init)
     = Inr ([Some 0, Some 1, Some 2, Some 3], MyFiniteDataset [0, 1, 2, 3] 4 4)
   \<and> take_finite 4 (reset_finite (MyFiniteDataset [0, 1, 2, 3] 4 4))
     = Inr ([], MyFiniteDataset [0, 1, 2, 3] 4 4)"
  by (simp add: MyFiniteDataset_init_def MyFiniteDataset_of_def next_finite_def
      list_getitem_def reset_finite_def numeral_nat)

text \<open>
  Claim C3. \<open>reset\<close> of a finite dataset rewinds the cursor to 0. The code does not:
  \<open>reset\<close> changes nothing in a leaf or a composite, so after one \<open>next\<close> the cursor
  of \<open>MyFiniteDataset\<close> is 1 and stays 1 over \<open>reset\<close>, the next element is 1 and not
  0, and an exhausted dataset stays exhausted.
\<close>

theorem finite_reset_keeps_cursor:
  "reset_finite d = d
   \<and> next_finite MyFiniteDataset_init = Inr (Some 0, MyFiniteDataset [0, 1, 2, 3] 1 4)
   \<and> idx (reset_finite (MyFiniteDataset [0, 1, 2, 3] 1 4)) = 1
   \<and> next_finite (reset_finite (MyFiniteDataset [0, 1, 2, 3] 1 4))
       = Inr (Some 1, MyFiniteDataset [0, 1, 2, 3] 2 4)
   \<and> next_finite (reset_finite (MyFiniteDataset [0, 1, 2, 3 :: int] 4 4)) = Inl StopIteration"
  by (simp add: MyFiniteDataset_init_def MyFiniteDataset_of_def next_finite_def
      list_getitem_def reset_finite_def)

text \<open>
  Claim C4, as amended. A leaf raises \<open>IndexError\<close> exactly for the indices \<open>k\<close> with
  \<open>k \<ge> length\<close> or \<open>k < - length\<close>, so at \<open>length\<close> in particular; an index in
  \<open>[- length, 0)\<close> reads from the end, an index in \<open>[0, length)\<close> from the front.
\<close>

theorem leaf_getitem_index_error:
  "(getitem (MyFiniteDataset dat i sz) k = Inl IndexError)
     = (k < - len (MyFiniteDataset dat i sz) \<or> len (MyFiniteDataset dat i sz) \<le> k)
  \<and> getitem (MyFiniteDataset dat i sz) (len (MyFiniteDataset dat i sz)) = Inl IndexError
  \<and> getitem (MyFiniteDataset dat i sz) k =
      (if 0 \<le> k \<and> k < int (length dat) then Inr (Some (dat ! nat k))
       else if - int (length dat) \<le> k \<and> k < 0 then Inr (Some (dat ! nat (int (length dat) + k)))
       else Inl IndexError)"
  by (auto simp add: list_getitem_def Let_def)

text \<open>
  Claim C4 as stated fails: \<open>get(-1)\<close> on \<open>MyFiniteDataset\<close> returns the last element, and
  \<open>get(length())\<close> on the concatenation of two of them returns \<open>None\<close>.
\<close>

theorem getitem_out_of_range_counterexample:
  "getitem MyFiniteDataset_init (- 1) = Inr (Some 3)
  \<and> getitem (MixedFiniteDataset_init [MyFiniteDataset_init, MyFiniteDataset_init])
       (len (MixedFiniteDataset_init [MyFiniteDataset_init, MyFiniteDataset_init])) = Inr None"
  by (simp add: MyFiniteDataset_init_def MyFiniteDataset_of_def MixedFiniteDataset_init_def
      list_getitem_def)

text \<open>
  Claim C5. The concatenation \<open>a + b\<close> has the length and the elements of \<open>a\<close> followed
  by \<open>b\<close>, for every pair of finite datasets. With \<open>a\<close> itself a concatenation (the
  \<open>ds4 = ds + ds3\<close> of the driver) and \<open>b\<close> a leaf there is no \<open>a + b\<close>: \<open>__add__\<close> raises
  \<open>AttributeError\<close>.
\<close>

theorem add_mixed_leaf_raises:
  "add MyFiniteDataset_init MyFiniteDataset_init
      = Inr (MixedFiniteDataset [MyFiniteDataset_init, MyFiniteDataset_init] [4, 4] 8 0)
  \<and> add (MixedFiniteDataset [MyFiniteDataset_init, MyFiniteDataset_init] [4, 4] 8 0)
         MyFiniteDataset_init = Inl AttributeError"
  by (simp add: MyFiniteDataset_init_def MyFiniteDataset_of_def MixedFiniteDataset_init_def)

text \<open>
  Claim C6. Concatenation with a composite merges the child lists, in either operand
  order. With three one-element leaves: composite \<open>+\<close> leaf raises \<open>AttributeError\<close>, and
  leaf \<open>+\<close> composite has two children, the second being the composite.
\<close>

theorem add_does_not_flatten:
  "add (MixedFiniteDataset_init [MyFiniteDataset_of [0 :: int], MyFiniteDataset_of [1]])
       (MyFiniteDataset_of [2]) = Inl AttributeError
  \<and> add (MyFiniteDataset_of [0 :: int])
       (MixedFiniteDataset_init [MyFiniteDataset_of [1], MyFiniteDataset_of [2]])
     = Inr (MixedFiniteDataset
              [MyFiniteDataset [0] 0 1,
               MixedFiniteDataset [MyFiniteDataset [1] 0 1, MyFiniteDataset [2] 0 1] [1, 1] 2 0]
              [1, 2] 3 0)"
  by (simp add: MyFiniteDataset_of_def MixedFiniteDataset_init_def)

text \<open>
  Claim C7. The constructor of \<open>MixedInfiniteDataset\<close> raises \<open>ValueError\<close> exactly when
  \<open>ps\<close> is given and its length is not the number of children, and raises nothing
  else. Without \<open>ps\<close> it returns a dataset whose \<open>ps\<close> is \<open>None\<close> and whose children are
  the reset children; the first \<open>next\<close> on it calls \<open>choice\<close> with \<open>p = None\<close> (uniform
  weights in numpy) on the generator seeded with 42 and runs the child at the position
  \<open>choice\<close> returns.
\<close>

theorem mixed_init_error:
  "(MixedInfiniteDataset_init np cs ps s = Inl ValueError) = (\<exists>p. ps = Some p \<and> length p \<noteq> length cs)
   \<and> (\<exists>e. MixedInfiniteDataset_init np cs ps s = Inl e) = (\<exists>p. ps = Some p \<and> length p \<noteq> length cs)
   \<and> (\<exists>m. MixedInfiniteDataset_init np cs None s = Inr m \<and> ps_attr m = None
          \<and> datasets_attr m = fst (reset_children np 0 cs)
          \<and> selected np m = map_sum id fst (rng_choice np (np_default_rng np 42) (length cs) None)
          \<and> next_infinite np m =
               (case rng_choice np (np_default_rng np 42) (length cs) None of
                  Inl e \<Rightarrow> Inl e
                | Inr (i, r') \<Rightarrow>
                    (case next_child np i (fst (reset_children np 0 cs)) of
                       Inl e \<Rightarrow> Inl e
                     | Inr (x, cs') \<Rightarrow> Inr (x, MixedInfiniteDataset s cs' None r'))))"
  by (auto simp add: MixedInfiniteDataset_init_def selected_def case_prod_unfold reset_children_length)

text \<open>
  Claim C8. \<open>PowerContinuous.sample\<close> returns \<open>np.power\<close> of the sample of its inner
  \<open>UniformContinuous\<close> and the stored power, and changes the inner distribution as
  that sample does. \<open>reset_rng(seed)\<close> is \<open>reset_rng(seed)\<close> on the inner distribution:
  it replaces the generator of the inner distribution and nothing else.
\<close>

theorem power_sample_reset:
  "fst (Power_sample np p) = np_power np (fst (Uniform_sample np (p_uniform p))) (p_power p)
   \<and> snd (Power_sample np p) = p\<lparr>p_uniform := snd (Uniform_sample np (p_uniform p))\<rparr>
   \<and> Power_reset_rng np p s = p\<lparr>p_uniform := Uniform_reset_rng np (p_uniform p) s\<rparr>
   \<and> p_seed (Power_reset_rng np p s) = p_seed p
   \<and> p_power (Power_reset_rng np p s) = p_power p
   \<and> p_uniform (Power_reset_rng np p s) = (p_uniform p)\<lparr>u_rng := np_default_rng np s\<rparr>
   \<and> reset_rng np (Power p) s = Power (p\<lparr>p_uniform := (p_uniform p)\<lparr>u_rng := np_default_rng np s\<rparr>\<rparr>)"
  by (simp add: Power_sample_def Power_reset_rng_def Uniform_reset_rng_def case_prod_unfold)

text \<open>
  Claim C9. \<open>MyInfiniteDataset(1, 2, 1)\<close> on numpy's generator, with any \<open>np.power\<close>
  for which \<open>x ** 1\<close> is \<open>x\<close>: both parents are seeded with 42, so the first sample is
  \<open>frac * l = u * (1 + u)\<close> for the one draw \<open>u = seed42_draw\<close>, about 1.373, which lies
  in \<open>[1, 2)\<close>; and after any number of draws and a \<open>reset\<close> the next sample is that
  first sample again. (In double precision \<open>u\<close> and \<open>1 + u\<close> are exact and the product
  is rounded to 1.372964013652324.)
\<close>

theorem my_dataset_first_sample:
  assumes pow1: "\<And>x. pw x 1 = x"
    and draws: "take_infinite (pcg64_numpy ch pw) k (MyInfiniteDataset_init (pcg64_numpy ch pw) 1 2 1)
                  = Inr (xs, d)"
  shows "map_sum id fst (next_infinite (pcg64_numpy ch pw) (MyInfiniteDataset_init (pcg64_numpy ch pw) 1 2 1))
           = Inr (seed42_draw * (1 + seed42_draw))
      \<and> 1 \<le> seed42_draw * (1 + seed42_draw) \<and> seed42_draw * (1 + seed42_draw) < 2
      \<and> map_sum id fst (next_infinite (pcg64_numpy ch pw) (fst (reset (pcg64_numpy ch pw) d)))
           = Inr (seed42_draw * (1 + seed42_draw))"
proof -
  let ?np = "pcg64_numpy ch pw"
  let ?D0 = "MyInfiniteDataset_init ?np 1 2 1"
  have first: "map_sum id fst (next_infinite ?np ?D0) = Inr (seed42_draw * (1 + seed42_draw))"
    by (simp add: my_first_sample) (simp add: pcg64_numpy_def seed42_uniform pow1)
  have restored: "fst (reset ?np d) = ?D0"
    using draws unfolding MyInfiniteDataset_init_def by (rule first_sample_after_reset)
  have range: "1 \<le> seed42_draw * (1 + seed42_draw) \<and> seed42_draw * (1 + seed42_draw) < 2"
    by (simp add: seed42_draw_def)
  show ?thesis using first range by (simp add: restored)
qed

theorem my_dataset_first_sample_witness:
  "map_sum id fst (next_infinite (pcg64_numpy (\<lambda>r n ps. Inl ValueError) counter_power)
        (MyInfiniteDataset_init (pcg64_numpy (\<lambda>r n ps. Inl ValueError) counter_power) 1 2 1))
     = Inr (seed42_draw * (1 + seed42_draw))
   \<and> 1 \<le> seed42_draw * (1 + seed42_draw) \<and> seed42_draw * (1 + seed42_draw) < 2
   \<and> map_sum id fst (next_infinite (pcg64_numpy (\<lambda>r n ps. Inl ValueError) counter_power)
        (fst (reset (pcg64_numpy (\<lambda>r n ps. Inl ValueError) counter_power)
           (snd (projr (take_infinite (pcg64_numpy (\<lambda>r n ps. Inl ValueError) counter_power) 1
              (MyInfiniteDataset_init (pcg64_numpy (\<lambda>r n ps. Inl ValueError) counter_power) 1 2 1)))))))
     = Inr (seed42_draw * (1 + seed42_draw))"
proof -
  let ?np = "pcg64_numpy (\<lambda>r n ps. Inl ValueError) counter_power"
  have pow1: "\<And>x. counter_power x 1 = x" by (simp add: counter_power_def)
  have draws: "take_infinite ?np 1 (MyInfiniteDataset_init ?np 1 2 1)
      = Inr (fst (projr (take_infinite ?np 1 (MyInfiniteDataset_init ?np 1 2 1))),
             snd (projr (take_infinite ?np 1 (MyInfiniteDataset_init ?np 1 2 1))))"
    by (simp add: my_first_sample)
  show ?thesis using my_dataset_first_sample [OF pow1 draws] .
qed

text \<open>
  Claim C10. The \<open>seed\<close> argument of the constructors has no effect: two datasets
  that differ in it only return the same samples and the same exception under every
  sequence of \<open>next\<close> and \<open>reset\<close> calls, because the dataset's own generator is seeded
  with 42 by the constructor and by every \<open>reset\<close>.
\<close>

theorem seed_argument_unused:
  "run np calls (InfiniteDataset_init np pvs s1 g) = run np calls (InfiniteDataset_init np pvs s2 g)
   \<and> map_sum id (run np calls) (MixedInfiniteDataset_init np cs ps s1)
       = map_sum id (run np calls) (MixedInfiniteDataset_init np cs ps s2)
   \<and> rng_attr (InfiniteDataset_init np pvs s1 g) = np_default_rng np 42
   \<and> map_sum id rng_attr (MixedInfiniteDataset_init np cs ps s1)
       = map_sum id (\<lambda>m. np_default_rng np 42) (MixedInfiniteDataset_init np cs ps s1)
   \<and> rng_attr (fst (reset np d)) = np_default_rng np 42
   \<and> run np calls (set_seed s1 d) = run np calls (set_seed s2 d)"
proof -
  have a: "InfiniteDataset_init np pvs s1 g = set_seed s1 (InfiniteDataset_init np pvs s2 g)"
    by (simp add: InfiniteDataset_init_def)
  have b: "MixedInfiniteDataset_init np cs ps s1
             = map_sum id (set_seed s1) (MixedInfiniteDataset_init np cs ps s2)"
    by (simp add: MixedInfiniteDataset_init_def case_prod_unfold)
  have c: "map_sum id (run np calls) (MixedInfiniteDataset_init np cs ps s1)
       = map_sum id (run np calls) (MixedInfiniteDataset_init np cs ps s2)"
    unfolding b by (cases "MixedInfiniteDataset_init np cs ps s2") (simp_all add: run_set_seed)
  have e: "map_sum id rng_attr (MixedInfiniteDataset_init np cs ps s1)
       = map_sum id (\<lambda>m. np_default_rng np 42) (MixedInfiniteDataset_init np cs ps s1)"
    by (simp add: MixedInfiniteDataset_init_def case_prod_unfold)
  have f: "rng_attr (InfiniteDataset_init np pvs s1 g) = np_default_rng np 42"
    by (simp add: InfiniteDataset_init_def)
  show ?thesis using c e f by (simp add: a run_set_seed rng_attr_reset)
qed

end
